theory Spec2Isabelle
  imports Main "HOL-Library.Sublist"
begin

section \<open>Strings\<close>

text \<open>
  Go strings are byte sequences; they are modelled as \<open>string\<close> (a \<open>char list\<close>).
  The functions of package \<open>strings\<close> that the code calls keep Go's argument order.
\<close>

definition HasPrefix :: "string \<Rightarrow> string \<Rightarrow> bool" where
  "HasPrefix s p = prefix p s"

definition HasSuffix :: "string \<Rightarrow> string \<Rightarrow> bool" where
  "HasSuffix s p = suffix p s"

definition Contains :: "string \<Rightarrow> string \<Rightarrow> bool" where
  "Contains s substr = sublist substr s"

text \<open>\<open>strings.IndexRune\<close> for an ASCII rune: the index of its first occurrence, or -1.\<close>

fun IndexRune :: "string \<Rightarrow> char \<Rightarrow> int" where
  "IndexRune [] c = -1"
| "IndexRune (x # xs) c =
     (if x = c then 0 else (let i = IndexRune xs c in if i < 0 then -1 else i + 1))"

text \<open>\<open>strings.Replace(s, old, new, -1)\<close> for a one-byte \<open>old\<close>.\<close>

fun ReplaceAll1 :: "string \<Rightarrow> char \<Rightarrow> string \<Rightarrow> string" where
  "ReplaceAll1 [] old new = []"
| "ReplaceAll1 (x # xs) old new =
     (if x = old then new @ ReplaceAll1 xs old new else x # ReplaceAll1 xs old new)"

section \<open>Errors and statuses\<close>

text \<open>
  Error values. \<open>ErrNotInstalled\<close> is the package's sentinel; \<open>ExitError\<close> is
  \<open>*exec.ExitError\<close> with the exit status of its wait status; \<open>OSError\<close> is any other
  error of the operating system or the standard library, kept by its message. The three
  errors built with \<open>fmt.Errorf\<close> keep the values that are formatted into the message.
\<close>

datatype error =
    ErrNotInstalled
  | ErrTooLong
  | ExitError int
  | OSError string
  | CommandFailed string error
  | CommandFailedStderr string string
  | InitAlreadyExists string

datatype Status = StatusUnknown | StatusRunning | StatusStopped

section \<open>Process invoker\<close>

text \<open>
  What the operating system does with one \<open>exec.Command\<close>: \<open>cmd.Start()\<close> fails, or the
  process runs and \<open>cmd.Wait()\<close> fails (with the bytes written to stdout and stderr), or
  \<open>cmd.Wait()\<close> returns nil (exit status zero).
\<close>

datatype proc_result =
    StartFailed error
  | WaitFailed error string string
  | Exited0 string string

datatype signal = SIGTERM | SIGINT | OtherSignal nat

text \<open>
  What a caller can observe of the lifecycle operations: the commands run, the sleeps, the
  calls of the Interface's callbacks, and the registration and the receipt of signals.
\<close>

datatype event =
    Exec string "string list"
  | Sleep nat
  | CallStart
  | CallStop
  | SignalNotify "signal list"
  | SignalReceive signal

text \<open>
  The environment decides the result of every command from the command line and from
  what happened before. Every invocation is appended to the trace.
\<close>

type_synonym exec_env = "event list \<Rightarrow> string \<Rightarrow> string list \<Rightarrow> proc_result"

text \<open>
  On the platforms of this file the \<open>Sys()\<close> of an \<open>*exec.ExitError\<close> is a
  \<open>syscall.WaitStatus\<close>, so the inner type assertion holds for every exit error.
\<close>

fun isExitError :: "error \<Rightarrow> int \<times> bool" where
  "isExitError (ExitError status) = (status, True)"
| "isExitError _ = (0, False)"

definition runCommand ::
  "exec_env \<Rightarrow> string \<Rightarrow> bool \<Rightarrow> string list \<Rightarrow> event list
     \<Rightarrow> (int \<times> string \<times> error option) \<times> event list" where
  "runCommand ex command readStdout arguments tr =
     (let tr' = tr @ [Exec command arguments] in
      case ex tr command arguments of
        StartFailed err \<Rightarrow> ((0, '''', Some (CommandFailed command err)), tr')
      | WaitFailed err out errOut \<Rightarrow>
          (let outS = (if readStdout then out else '''') in
           case isExitError err of
             (exitStatus, True) \<Rightarrow> ((exitStatus, outS, Some err), tr')
           | (_, False) \<Rightarrow> ((0, outS, Some (CommandFailed command err)), tr'))
      | Exited0 out errOut \<Rightarrow>
          (let outS = (if readStdout then out else '''') in
           if command = ''launchctl'' \<and> length errOut > 0
              \<and> \<not> HasSuffix errOut ''Operation now in progress\<newline>''
           then ((0, '''', Some (CommandFailedStderr command errOut)), tr')
           else ((0, outS, None), tr')))"

definition run :: "exec_env \<Rightarrow> string \<Rightarrow> string list \<Rightarrow> event list \<Rightarrow> error option \<times> event list" where
  "run ex command arguments tr =
     (case runCommand ex command False arguments tr of ((_, _, err), tr') \<Rightarrow> (err, tr'))"

definition runWithOutput ::
  "exec_env \<Rightarrow> string \<Rightarrow> string list \<Rightarrow> event list
     \<Rightarrow> (int \<times> string \<times> error option) \<times> event list" where
  "runWithOutput ex command arguments tr = runCommand ex command True arguments tr"

section \<open>The boxrc backend\<close>

text \<open>The fields of \<open>Config\<close> that the boxrc backend reads.\<close>

record Config =
  Name :: string
  DisplayName :: string
  Arguments :: "string list"
  WorkingDirectory :: string

definition configPath :: "Config \<Rightarrow> string" where
  "configPath s = ''/etc/boxinit.d/65'' @ Name s"

definition boxrc_Status :: "exec_env \<Rightarrow> Config \<Rightarrow> event list \<Rightarrow> (Status \<times> error option) \<times> event list" where
  "boxrc_Status ex s tr =
     (case runWithOutput ex (configPath s) [''status''] tr of
        ((_, out, Some err), tr') \<Rightarrow> ((StatusUnknown, Some err), tr')
      | ((_, out, None), tr') \<Rightarrow>
          (if HasPrefix out ''Running'' then ((StatusRunning, None), tr')
           else if HasPrefix out ''Stopped'' then ((StatusStopped, None), tr')
           else ((StatusUnknown, Some ErrNotInstalled), tr')))"

definition boxrc_Start :: "exec_env \<Rightarrow> Config \<Rightarrow> event list \<Rightarrow> error option \<times> event list" where
  "boxrc_Start ex s tr = run ex (configPath s) [''start''] tr"

definition boxrc_Stop :: "exec_env \<Rightarrow> Config \<Rightarrow> event list \<Rightarrow> error option \<times> event list" where
  "boxrc_Stop ex s tr = run ex (configPath s) [''stop''] tr"

text \<open>\<open>time.Sleep(50 * time.Millisecond)\<close>: a \<open>Duration\<close> counts nanoseconds.\<close>

definition Millisecond :: nat where
  "Millisecond = 1000000"

definition boxrc_Restart :: "exec_env \<Rightarrow> Config \<Rightarrow> event list \<Rightarrow> error option \<times> event list" where
  "boxrc_Restart ex s tr =
     (case boxrc_Stop ex s tr of
        (Some err, tr1) \<Rightarrow> (Some err, tr1)
      | (None, tr1) \<Rightarrow> boxrc_Start ex s (tr1 @ [Sleep (50 * Millisecond)]))"

subsection \<open>Run\<close>

text \<open>
  The Interface's callbacks return an error or nil; what they return may depend on what
  happened before. The environment decides which signal, if any, is delivered after the
  registration; \<open>None\<close> is the run in which none ever arrives.
\<close>

record Interface =
  i_Start :: "event list \<Rightarrow> error option"
  i_Stop :: "event list \<Rightarrow> error option"

type_synonym signal_env = "event list \<Rightarrow> signal option"

text \<open>
  A blocking call either comes back or parks forever; the trace holds what happened up
  to that point.
\<close>

datatype 'a blocking = Finished 'a | Blocked

text \<open>
  The default of the run-wait option, lines 163 to 167: a channel, \<open>signal.Notify\<close> for
  \<open>syscall.SIGTERM\<close> and \<open>os.Interrupt\<close> (which is \<open>syscall.SIGINT\<close>), and one receive.
  Only a registered signal reaches the channel.
\<close>

definition defaultRunWait :: "signal_env \<Rightarrow> event list \<Rightarrow> unit blocking \<times> event list" where
  "defaultRunWait sg tr =
     (let tr1 = tr @ [SignalNotify [SIGTERM, SIGINT]] in
      case sg tr1 of
        None \<Rightarrow> (Blocked, tr1)
      | Some sig \<Rightarrow>
          (if sig \<in> set [SIGTERM, SIGINT] then (Finished (), tr1 @ [SignalReceive sig])
           else (Blocked, tr1)))"

text \<open>
  \<open>s.Option.funcSingle(optionRunWait, f)\<close> is not part of the sources at hand: its result
  is the parameter \<open>runWait\<close>, \<open>None\<close> when the option bag holds no function under that name
  (the default \<open>f\<close> is then called), \<open>Some g\<close> for the caller's function \<open>g\<close>.
\<close>

definition boxrc_Run ::
  "Interface \<Rightarrow> signal_env \<Rightarrow> (event list \<Rightarrow> unit blocking \<times> event list) option
     \<Rightarrow> event list \<Rightarrow> error option blocking \<times> event list" where
  "boxrc_Run i sg runWait tr =
     (let tr1 = tr @ [CallStart] in
      case i_Start i tr of
        Some err \<Rightarrow> (Finished (Some err), tr1)
      | None \<Rightarrow>
          (case (case runWait of None \<Rightarrow> defaultRunWait sg tr1 | Some g \<Rightarrow> g tr1) of
             (Blocked, tr2) \<Rightarrow> (Blocked, tr2)
           | (Finished _, tr2) \<Rightarrow> (Finished (i_Stop i tr2), tr2 @ [CallStop])))"

subsection \<open>The control script\<close>

text \<open>The template functions \<open>cmd\<close> and \<open>cmdEscape\<close> of \<open>tf\<close>.\<close>

definition tf_cmd :: "string \<Rightarrow> string" where
  "tf_cmd s = [CHR 0x22] @ ReplaceAll1 s (CHR 0x22) [CHR 0x5C, CHR 0x22] @ [CHR 0x22]"

definition tf_cmdEscape :: "string \<Rightarrow> string" where
  "tf_cmdEscape s = ReplaceAll1 s (CHR '' '') ([CHR 0x5C] @ ''x20'')"

text \<open>
  Line 207 of the template, as \<open>text/template\<close> renders it: the path, then for each
  argument a space and the argument passed through \<open>cmd\<close>, all between double quotes.
\<close>

definition boxrcScript_cmd_line :: "string \<Rightarrow> string list \<Rightarrow> string" where
  \<open>boxrcScript_cmd_line path args =
     ''cmd="'' @ path @ concat (map (\<lambda>a. '' '' @ tf_cmd a) args) @ ''"''\<close>

text \<open>The built-in template \<open>boxrcScript\<close>, rendered line by line.\<close>

definition boxrcScript_lines :: "Config \<Rightarrow> string \<Rightarrow> string \<Rightarrow> string list" where
  \<open>boxrcScript_lines s path logDir =
     [''#!/bin/sh'',
      '''',
      boxrcScript_cmd_line path (Arguments s),
      '''',
      ''name='' @ Name s,
      ''pid_file="/var/run/$name.pid"'',
      ''stdout_log="'' @ logDir @ ''/$name.log"'',
      ''stderr_log="'' @ logDir @ ''/$name.err"'',
      '''',
      ''get_pid() {'',
      ''    cat "$pid_file"'',
      ''}'',
      '''',
      ''is_running() {'',
      ''    [ -f "$pid_file" ] && cat /proc/$(get_pid)/stat > /dev/null 2>&1'',
      ''}'',
      '''',
      ''case "$1" in'',
      ''    start)'',
      ''        if is_running; then'',
      ''            echo "Already started"'',
      ''        else'',
      ''            echo "Starting $name"'',
      ''            '' @ (if WorkingDirectory s \<noteq> [] then ''cd '' @ [CHR 0x27] @ WorkingDirectory s @ [CHR 0x27] else []),
      ''            $cmd >> "$stdout_log" 2>> "$stderr_log" &'',
      ''            echo $! > "$pid_file"'',
      ''            if ! is_running; then'',
      ''                echo "Unable to start, see $stdout_log and $stderr_log"'',
      ''                exit 1'',
      ''            fi'',
      ''        fi'',
      ''    ;;'',
      ''    stop)'',
      ''        if is_running; then'',
      ''            echo -n "Stopping $name.."'',
      ''            kill $(get_pid)'',
      ''            for i in $(seq 1 10)'',
      ''            do'',
      ''                if ! is_running; then'',
      ''                    break'',
      ''                fi'',
      ''                echo -n "."'',
      ''                sleep 1'',
      ''            done'',
      ''            echo'',
      ''            if is_running; then'',
      ''                echo "Not stopped; may still be shutting down or shutdown may have failed"'',
      ''                exit 1'',
      ''            else'',
      ''                echo "Stopped"'',
      ''                if [ -f "$pid_file" ]; then'',
      ''                    rm "$pid_file"'',
      ''                fi'',
      ''            fi'',
      ''        else'',
      ''            echo "Not running"'',
      ''        fi'',
      ''    ;;'',
      ''    restart)'',
      ''        $0 stop'',
      ''        if is_running; then'',
      ''            echo "Unable to stop, will not attempt to start"'',
      ''            exit 1'',
      ''        fi'',
      ''        $0 start'',
      ''    ;;'',
      ''    status)'',
      ''        if is_running; then'',
      ''            echo "Running"'',
      ''        else'',
      ''            echo "Stopped"'',
      ''            exit 0'',
      ''        fi'',
      ''    ;;'',
      ''    *)'',
      ''    echo "Usage: $0 {start|stop|restart|status}"'',
      ''    exit 1'',
      ''    ;;'',
      ''esac'']\<close>

definition boxrcScript_render :: "Config \<Rightarrow> string \<Rightarrow> string \<Rightarrow> string" where
  "boxrcScript_render s path logDir =
     concat (map (\<lambda>l. l @ [CHR 0x0A]) (boxrcScript_lines s path logDir))"

subsection \<open>Install and Uninstall\<close>

text \<open>A Go call returns, or panics.\<close>

datatype 'a outcome = Returned 'a | Panic string

text \<open>
  A custom template is parsed by \<open>template.Must\<close>, which panics on a malformed text, and
  then executed, which produces some text and may stop with an error.
\<close>

datatype tmpl_result = TmplParsePanic string | TmplOutput string "error option"

text \<open>
  The operating system and the template engine, as Install and Uninstall use them, over
  any type \<open>'w\<close> of file-system states. Each call returns its error, or nil, and the state
  it leaves.
\<close>

record 'w sys =
  os_Stat :: "'w \<Rightarrow> string \<Rightarrow> error option"
  os_Create :: "'w \<Rightarrow> string \<Rightarrow> error option \<times> 'w"
  os_Write :: "'w \<Rightarrow> string \<Rightarrow> string \<Rightarrow> error option \<times> 'w"
  os_Close :: "'w \<Rightarrow> string \<Rightarrow> 'w"
  os_Chmod :: "'w \<Rightarrow> string \<Rightarrow> nat \<Rightarrow> error option \<times> 'w"
  os_Symlink :: "'w \<Rightarrow> string \<Rightarrow> string \<Rightarrow> error option \<times> 'w"
  os_Remove :: "'w \<Rightarrow> string \<Rightarrow> error option \<times> 'w"
  tmpl_custom :: "string \<Rightarrow> Config \<Rightarrow> string \<Rightarrow> string \<Rightarrow> tmpl_result"

text \<open>
  The values that Install takes from helpers outside the sources at hand:
  \<open>s.Option.string(optionRCSScript, "")\<close>, \<open>s.Option.string(optionLogDirectory,
  defaultLogDirectory)\<close> and \<open>s.execPath()\<close>.
\<close>

record install_opts =
  customScript :: string
  logDirectory :: string
  execPath :: "error + string"

text \<open>\<open>s.template().Execute(f, to)\<close>, lines 81 to 88 and 119.\<close>

definition template_Execute ::
  "'w sys \<Rightarrow> Config \<Rightarrow> install_opts \<Rightarrow> string \<Rightarrow> string \<Rightarrow> 'w \<Rightarrow> error option outcome \<times> 'w" where
  "template_Execute sys s opts f path w =
     (if customScript opts \<noteq> []
      then (case tmpl_custom sys (customScript opts) s path (logDirectory opts) of
              TmplParsePanic msg \<Rightarrow> (Panic msg, w)
            | TmplOutput text terr \<Rightarrow>
                (case os_Write sys w f text of
                   (Some err, w') \<Rightarrow> (Returned (Some err), w')
                 | (None, w') \<Rightarrow> (Returned terr, w')))
      else (case os_Write sys w f (boxrcScript_render s path (logDirectory opts)) of
              (err, w') \<Rightarrow> (Returned err, w')))"

text \<open>
  Lines 104 to 132 of Install, between the creation of the file and its deferred close.
  The mode \<open>0755\<close> is 493.
\<close>

definition Install_body ::
  "'w sys \<Rightarrow> Config \<Rightarrow> install_opts \<Rightarrow> string \<Rightarrow> 'w \<Rightarrow> error option outcome \<times> 'w" where
  "Install_body sys s opts confPath w =
     (case execPath opts of
        Inl err \<Rightarrow> (Returned (Some err), w)
      | Inr path \<Rightarrow>
          (case template_Execute sys s opts confPath path w of
             (Panic msg, w1) \<Rightarrow> (Panic msg, w1)
           | (Returned (Some err), w1) \<Rightarrow> (Returned (Some err), w1)
           | (Returned None, w1) \<Rightarrow>
               (case os_Chmod sys w1 confPath 493 of
                  (Some err, w2) \<Rightarrow> (Returned (Some err), w2)
                | (None, w2) \<Rightarrow>
                    (case os_Symlink sys w2 confPath (''/etc/boxrc.d/65'' @ Name s) of
                       (Some err, w3) \<Rightarrow> (Returned (Some err), w3)
                     | (None, w3) \<Rightarrow> (Returned None, w3)))))"

definition boxrc_Install ::
  "'w sys \<Rightarrow> Config \<Rightarrow> install_opts \<Rightarrow> 'w \<Rightarrow> error option outcome \<times> 'w" where
  "boxrc_Install sys s opts w =
     (let confPath = configPath s in
      case os_Stat sys w confPath of
        None \<Rightarrow> (Returned (Some (InitAlreadyExists confPath)), w)
      | Some _ \<Rightarrow>
          (case os_Create sys w confPath of
             (Some err, w1) \<Rightarrow> (Returned (Some err), w1)
           | (None, w1) \<Rightarrow>
               (case Install_body sys s opts confPath w1 of
                  (r, w2) \<Rightarrow> (r, os_Close sys w2 confPath))))"

definition boxrc_Uninstall :: "'w sys \<Rightarrow> Config \<Rightarrow> 'w \<Rightarrow> error option \<times> 'w" where
  "boxrc_Uninstall sys s w =
     (case os_Remove sys w (configPath s) of
        (Some err, w1) \<Rightarrow> (Some err, w1)
      | (None, w1) \<Rightarrow> os_Remove sys w1 (''/etc/boxrc.d/65'' @ Name s))"

text \<open>
  A small file system over which the operations can be run: regular files with their
  contents and modes, and symbolic links. A path exists when it names a file, or a link
  to a file.
\<close>

record tinyfs =
  files :: "string \<rightharpoonup> string \<times> nat"
  links :: "string \<rightharpoonup> string"

definition enoent :: error where
  "enoent = OSError ''no such file or directory''"

definition eexist :: error where
  "eexist = OSError ''file exists''"

definition tiny_Stat :: "tinyfs \<Rightarrow> string \<Rightarrow> error option" where
  "tiny_Stat w p =
     (case files w p of
        Some _ \<Rightarrow> None
      | None \<Rightarrow>
          (case links w p of
             None \<Rightarrow> Some enoent
           | Some t \<Rightarrow> (case files w t of Some _ \<Rightarrow> None | None \<Rightarrow> Some enoent)))"

definition tiny_Create :: "tinyfs \<Rightarrow> string \<Rightarrow> error option \<times> tinyfs" where
  "tiny_Create w p =
     (case links w p of
        Some t \<Rightarrow> (None, w\<lparr>files := (files w)(t \<mapsto> ([], 420))\<rparr>)
      | None \<Rightarrow> (None, w\<lparr>files := (files w)(p \<mapsto> ([], 420))\<rparr>))"

definition tiny_Write :: "tinyfs \<Rightarrow> string \<Rightarrow> string \<Rightarrow> error option \<times> tinyfs" where
  "tiny_Write w p text =
     (case files w p of
        None \<Rightarrow> (Some enoent, w)
      | Some (c, m) \<Rightarrow> (None, w\<lparr>files := (files w)(p \<mapsto> (c @ text, m))\<rparr>))"

definition tiny_Chmod :: "tinyfs \<Rightarrow> string \<Rightarrow> nat \<Rightarrow> error option \<times> tinyfs" where
  "tiny_Chmod w p mode =
     (case files w p of
        None \<Rightarrow> (Some enoent, w)
      | Some (c, m) \<Rightarrow> (None, w\<lparr>files := (files w)(p \<mapsto> (c, mode))\<rparr>))"

definition tiny_Symlink :: "tinyfs \<Rightarrow> string \<Rightarrow> string \<Rightarrow> error option \<times> tinyfs" where
  "tiny_Symlink w oldname newname =
     (if files w newname \<noteq> None \<or> links w newname \<noteq> None then (Some eexist, w)
      else (None, w\<lparr>links := (links w)(newname \<mapsto> oldname)\<rparr>))"

definition tiny_Remove :: "tinyfs \<Rightarrow> string \<Rightarrow> error option \<times> tinyfs" where
  "tiny_Remove w p =
     (if links w p \<noteq> None then (None, w\<lparr>links := (links w)(p := None)\<rparr>)
      else if files w p \<noteq> None then (None, w\<lparr>files := (files w)(p := None)\<rparr>)
      else (Some enoent, w))"

definition tiny_sys :: "tinyfs sys" where
  "tiny_sys =
     \<lparr>os_Stat = tiny_Stat, os_Create = tiny_Create, os_Write = tiny_Write,
      os_Close = (\<lambda>w p. w), os_Chmod = tiny_Chmod, os_Symlink = tiny_Symlink,
      os_Remove = tiny_Remove,
      tmpl_custom = (\<lambda>src s path logDir. TmplOutput src None)\<rparr>"

section \<open>Execution-context detector\<close>

text \<open>
  The process file system as the detector reads it: every path gives an error (the file
  cannot be opened or read) or the bytes of the file, and the parent process has an id.
  A file that opens is read to its end.
\<close>

record procfs =
  readFile :: "string \<Rightarrow> error + string"
  Getppid :: int

definition cgroupFile :: string where
  "cgroupFile = ''/proc/1/cgroup''"

subsection \<open>The line scanner\<close>

text \<open>
  \<open>bufio.Scanner\<close> with its default split function \<open>ScanLines\<close> and its default buffer
  limit. One call of \<open>Scan\<close> on the unread input ends the scan at the end of the input,
  fails with \<open>ErrTooLong\<close> when no line end lies within the first \<open>MaxScanTokenSize\<close>
  bytes, or delivers the bytes before the next line end (or the rest of the input when
  there is none), without one trailing carriage return.
\<close>

definition MaxScanTokenSize :: nat where
  "MaxScanTokenSize = 64 * 1024"

definition dropCR :: "string \<Rightarrow> string" where
  "dropCR data = (if data \<noteq> [] \<and> last data = CHR 0x0D then butlast data else data)"

datatype scan_step = Token string string | ScanEnd | ScanErr error

definition Scan :: "string \<Rightarrow> scan_step" where
  "Scan input =
     (if input = [] then ScanEnd
      else (let line = takeWhile (\<lambda>c. c \<noteq> CHR 0x0A) input in
            if length line \<ge> MaxScanTokenSize then ScanErr ErrTooLong
            else Token (dropCR line) (drop (length line + 1) input)))"

text \<open>All the tokens that successive calls of \<open>Scan\<close> deliver.\<close>

function scan_tokens :: "string \<Rightarrow> string list" where
  "scan_tokens input =
     (case Scan input of
        Token text rest \<Rightarrow> text # scan_tokens rest
      | ScanEnd \<Rightarrow> []
      | ScanErr err \<Rightarrow> [])"
  by pat_completeness auto
termination
  by (relation "measure length") (auto simp: Scan_def Let_def split: if_splits)

subsection \<open>isInContainer\<close>

definition maxlines :: nat where
  "maxlines = 5"

text \<open>
  The loop of lines 124 to 129. Its condition calls \<open>scan.Scan()\<close> first and compares
  \<open>lines\<close> with \<open>maxlines\<close> second; after the loop, \<open>scan.Err()\<close> is the scanner's error.
\<close>

function isInContainer_loop :: "string \<Rightarrow> nat \<Rightarrow> bool \<times> error option" where
  "isInContainer_loop input lines =
     (case Scan input of
        ScanEnd \<Rightarrow> (False, None)
      | ScanErr err \<Rightarrow> (False, Some err)
      | Token text rest \<Rightarrow>
          (if lines > maxlines then (False, None)
           else if Contains text ''docker'' \<or> Contains text ''lxc'' then (True, None)
           else isInContainer_loop rest (lines + 1)))"
  by pat_completeness auto
termination
  by (relation "measure (\<lambda>(input, lines). length input)")
     (auto simp: Scan_def Let_def split: if_splits)

definition isInContainer :: "(string \<Rightarrow> error + string) \<Rightarrow> string \<Rightarrow> bool \<times> error option" where
  "isInContainer rf cgroupPath =
     (case rf cgroupPath of
        Inl err \<Rightarrow> (False, Some err)
      | Inr content \<Rightarrow> isInContainer_loop content 0)"

subsection \<open>binaryName and isInteractive\<close>

text \<open>\<open>fmt.Sprintf("%d", n)\<close>.\<close>

fun digits :: "nat \<Rightarrow> string" where
  "digits n =
     (if n < 10 then [''0123456789'' ! n]
      else digits (n div 10) @ [''0123456789'' ! (n mod 10)])"

definition itoa :: "int \<Rightarrow> string" where
  "itoa n = (if n < 0 then ''-'' @ digits (nat (- n)) else digits (nat n))"

text \<open>
  The slice expression \<open>s[lo:hi]\<close> of a string panics unless
  \<open>0 \<le> lo \<le> hi \<le> len(s)\<close>; \<open>s[lo:]\<close> is \<open>s[lo:len(s)]\<close>.
\<close>

definition slice :: "string \<Rightarrow> int \<Rightarrow> int \<Rightarrow> string outcome" where
  "slice s lo hi =
     (if 0 \<le> lo \<and> lo \<le> hi \<and> hi \<le> int (length s)
      then Returned (take (nat (hi - lo)) (drop (nat lo) s))
      else Panic ''slice bounds out of range'')"

definition binaryName :: "(string \<Rightarrow> error + string) \<Rightarrow> int \<Rightarrow> (string \<times> error option) outcome" where
  "binaryName rf pid =
     (let statPath = ''/proc/'' @ itoa pid @ ''/stat'' in
      case rf statPath of
        Inl err \<Rightarrow> Returned ([], Some err)
      | Inr data \<Rightarrow>
          (let binStart = IndexRune data (CHR ''('') + 1 in
           case slice data binStart (int (length data)) of
             Panic msg \<Rightarrow> Panic msg
           | Returned tail \<Rightarrow>
               (let binEnd = IndexRune tail (CHR '')'') in
                case slice data binStart (binStart + binEnd) of
                  Panic msg \<Rightarrow> Panic msg
                | Returned name \<Rightarrow> Returned (name, None))))"

definition isInteractive :: "procfs \<Rightarrow> bool outcome" where
  "isInteractive w =
     (case isInContainer (readFile w) cgroupFile of
        (inContainer, err) \<Rightarrow>
          (if err = None \<and> inContainer then Returned True
           else (let ppid = Getppid w in
                 if ppid = 1 then Returned False
                 else (case binaryName (readFile w) ppid of
                         Panic msg \<Rightarrow> Panic msg
                       | Returned (binary, _) \<Rightarrow> Returned (binary \<noteq> ''systemd'')))))"

section \<open>How the shell reads the command line of the script\<close>

text \<open>
  The script's line 207 is an assignment to \<open>cmd\<close>, and its line 229 runs the unquoted
  expansion \<open>$cmd\<close>. The part of the POSIX shell language that decides what the started
  program receives is modelled here for command lines made of ordinary characters,
  blanks, double quotes and backslashes; any other character with a meaning for the
  shell puts the line outside the model (\<open>None\<close>).

  Token recognition (POSIX XCU 2.3, quoting 2.2): an unquoted blank ends a word; a double
  quote opens or closes a quoted part of the current word; outside quotes a backslash
  keeps the next character; inside double quotes it does so only before a double quote
  or a backslash.
\<close>

definition sh_special :: "char list" where
  \<open>sh_special = ''$`|&;<>()#*?[]~!{}'' @ [CHR 0x27, CHR 0x0A]\<close>

fun sh_words :: "bool \<Rightarrow> bool \<Rightarrow> string \<Rightarrow> string \<Rightarrow> string list option" where
  "sh_words quoted started cur [] =
     (if quoted then None else Some (if started then [cur] else []))"
| "sh_words quoted started cur [c] =
     (if c \<in> set sh_special \<or> c = CHR 0x5C then None
      else if c = CHR 0x22 then sh_words (\<not> quoted) True cur []
      else if \<not> quoted \<and> (c = CHR '' '' \<or> c = CHR 0x09)
        then Some (if started then [cur] else [])
      else sh_words quoted True (cur @ [c]) [])"
| "sh_words quoted started cur (c # d # cs) =
     (if c \<in> set sh_special then None
      else if c = CHR 0x22 then sh_words (\<not> quoted) True cur (d # cs)
      else if c = CHR 0x5C then
        (if d \<in> set sh_special then None
         else if quoted \<and> d \<noteq> CHR 0x22 \<and> d \<noteq> CHR 0x5C
           then sh_words quoted True (cur @ [c]) (d # cs)
         else sh_words quoted True (cur @ [d]) cs)
      else if \<not> quoted \<and> (c = CHR '' '' \<or> c = CHR 0x09) then
        (case sh_words False False [] (d # cs) of
           None \<Rightarrow> None
         | Some ws \<Rightarrow> Some (if started then cur # ws else ws))
      else sh_words quoted True (cur @ [c]) (d # cs))"

text \<open>
  A simple command (POSIX XCU 2.9.1): a line that is the single word \<open>cmd=value\<close> assigns
  \<open>value\<close> to \<open>cmd\<close> in the shell. When more words follow, the second word names a command
  to run, the assignment is made in the environment of that command only, and \<open>cmd\<close>
  stays unset in the shell, where \<open>$cmd\<close> then expands to nothing. The result is the
  value that \<open>$cmd\<close> has after the line.
\<close>

definition sh_cmd_after :: "string \<Rightarrow> string option" where
  "sh_cmd_after line =
     (case sh_words False False [] line of
        None \<Rightarrow> None
      | Some ws \<Rightarrow>
          (case ws of
             [w] \<Rightarrow> Some (if prefix ''cmd='' w then drop 4 w else [])
           | _ \<Rightarrow> Some []))"

text \<open>
  Field splitting of an unquoted expansion (POSIX XCU 2.6.5) with the default \<open>IFS\<close>:
  the value is cut at every run of blanks and newlines; quotes and backslashes in the
  value are ordinary characters.
\<close>

fun sh_fields :: "string \<Rightarrow> string \<Rightarrow> string list" where
  "sh_fields cur [] = (if cur = [] then [] else [cur])"
| "sh_fields cur (c # cs) =
     (if c = CHR '' '' \<or> c = CHR 0x09 \<or> c = CHR 0x0A
      then (if cur = [] then sh_fields [] cs else cur # sh_fields [] cs)
      else sh_fields (cur @ [c]) cs)"

text \<open>
  The argument vector that line 229 starts, for a script rendered from a path and an
  argument list: the program's name followed by its arguments.
\<close>

definition boxrc_started_argv :: "string \<Rightarrow> string list \<Rightarrow> string list option" where
  "boxrc_started_argv path args =
     map_option (sh_fields []) (sh_cmd_after (boxrcScript_cmd_line path args))"

section \<open>Properties of the process invoker\<close>

lemma configPath_not_launchctl: "configPath s \<noteq> ''launchctl''"
  by (simp add: configPath_def)

lemma runCommand_trace: "snd (runCommand ex c r a tr) = tr @ [Exec c a]"
  by (simp add: runCommand_def Let_def split: proc_result.splits prod.splits bool.splits)

lemma run_trace: "snd (run ex c a tr) = tr @ [Exec c a]"
  using runCommand_trace [of ex c False a tr]
  by (cases "runCommand ex c False a tr") (auto simp: run_def)

lemma runCommand_error_not_sentinel:
  "runCommand ex c r a tr = ((n, out, Some e), tr') \<Longrightarrow> e \<noteq> ErrNotInstalled"
  by (cases "ex tr c a")
     (auto simp: runCommand_def Let_def split: if_splits prod.splits bool.splits
           elim!: isExitError.elims)

text \<open>
  Claim C8. When the command exits with status zero: for \<open>launchctl\<close>, runCommand turns
  the success into a failure exactly when the captured stderr is not empty and does not
  end with \<open>Operation now in progress\<close> and a newline; for every other command it reports
  success whatever stderr holds.
\<close>

theorem runCommand_zero_exit:
  "ex tr command arguments = Exited0 out errOut \<Longrightarrow>
     (command = ''launchctl'' \<longrightarrow>
        fst (runCommand ex command readStdout arguments tr) =
          (if errOut \<noteq> [] \<and> \<not> suffix ''Operation now in progress\<newline>'' errOut
           then (0, [], Some (CommandFailedStderr command errOut))
           else (0, if readStdout then out else [], None)))
   \<and> (command \<noteq> ''launchctl'' \<longrightarrow>
        fst (runCommand ex command readStdout arguments tr) =
          (0, if readStdout then out else [], None))"
  by (auto simp: runCommand_def HasSuffix_def Let_def)

theorem runCommand_zero_exit_witness:
  "fst (runCommand (\<lambda>tr c a. Exited0 ''ok'' ''boom'') ''launchctl'' True [''load''] [])
     = (0, [], Some (CommandFailedStderr ''launchctl'' ''boom''))
   \<and> fst (runCommand (\<lambda>tr c a. Exited0 ''ok'' ''Operation now in progress\<newline>'')
            ''launchctl'' True [''load''] [])
     = (0, ''ok'', None)
   \<and> fst (runCommand (\<lambda>tr c a. Exited0 ''ok'' ''boom'') ''service'' True [''x'', ''status''] [])
     = (0, ''ok'', None)"
  using runCommand_zero_exit [of "\<lambda>tr c a. Exited0 ''ok'' ''boom''" "[]" "''launchctl''"
           "[''load'']" "''ok''" "''boom''" True]
        runCommand_zero_exit [of "\<lambda>tr c a. Exited0 ''ok'' ''Operation now in progress\<newline>''"
           "[]" "''launchctl''" "[''load'']" "''ok''" "''Operation now in progress\<newline>''" True]
        runCommand_zero_exit [of "\<lambda>tr c a. Exited0 ''ok'' ''boom''" "[]" "''service''"
           "[''x'', ''status'']" "''ok''" "''boom''" True]
  by (simp add: suffix_to_prefix)

section \<open>Properties of the boxrc backend\<close>

lemma Running_not_Stopped: "prefix ''Running'' out \<Longrightarrow> \<not> prefix ''Stopped'' out"
  by (cases out) auto

text \<open>
  Claim C1. Status runs the descriptor with \<open>status\<close>. When the command succeeds, an
  output that begins with \<open>Running\<close> gives Running and no error, one that begins with
  \<open>Stopped\<close> gives Stopped and no error, and any other output gives Unknown with the
  sentinel \<open>ErrNotInstalled\<close>. When the command fails, Status gives Unknown with the error
  of the command, which is never the sentinel.
\<close>

theorem boxrc_Status_decoding:
  "(ex tr (configPath s) [''status''] = Exited0 out errOut \<and> prefix ''Running'' out \<longrightarrow>
      fst (boxrc_Status ex s tr) = (StatusRunning, None))
   \<and> (ex tr (configPath s) [''status''] = Exited0 out errOut \<and> prefix ''Stopped'' out \<longrightarrow>
      fst (boxrc_Status ex s tr) = (StatusStopped, None))
   \<and> (ex tr (configPath s) [''status''] = Exited0 out errOut
        \<and> \<not> prefix ''Running'' out \<and> \<not> prefix ''Stopped'' out \<longrightarrow>
      fst (boxrc_Status ex s tr) = (StatusUnknown, Some ErrNotInstalled))
   \<and> ((\<forall>out errOut. ex tr (configPath s) [''status''] \<noteq> Exited0 out errOut) \<longrightarrow>
      (\<exists>e. snd (snd (fst (runWithOutput ex (configPath s) [''status''] tr))) = Some e
         \<and> fst (boxrc_Status ex s tr) = (StatusUnknown, Some e)
         \<and> e \<noteq> ErrNotInstalled))"
proof (cases "ex tr (configPath s) [''status'']")
  case (StartFailed err)
  then show ?thesis
    by (simp add: boxrc_Status_def runWithOutput_def runCommand_def)
next
  case (WaitFailed err o1 e1)
  then show ?thesis
    by (cases err) (simp_all add: boxrc_Status_def runWithOutput_def runCommand_def)
next
  case (Exited0 o1 e1)
  then show ?thesis
    by (auto simp: boxrc_Status_def runWithOutput_def runCommand_def HasPrefix_def
          configPath_not_launchctl dest: Running_not_Stopped)
qed

theorem boxrc_Status_decoding_witness:
  "fst (boxrc_Status (\<lambda>tr c a. Exited0 ''Running\<newline>'' []) \<lparr>Name = ''svc'', DisplayName = [],
          Arguments = [], WorkingDirectory = []\<rparr> []) = (StatusRunning, None)
   \<and> fst (boxrc_Status (\<lambda>tr c a. Exited0 ''Stopped\<newline>'' []) \<lparr>Name = ''svc'', DisplayName = [],
          Arguments = [], WorkingDirectory = []\<rparr> []) = (StatusStopped, None)
   \<and> fst (boxrc_Status (\<lambda>tr c a. Exited0 ''Paused'' []) \<lparr>Name = ''svc'', DisplayName = [],
          Arguments = [], WorkingDirectory = []\<rparr> []) = (StatusUnknown, Some ErrNotInstalled)
   \<and> (\<exists>e. fst (boxrc_Status (\<lambda>tr c a. WaitFailed (ExitError 1) [] []) \<lparr>Name = ''svc'',
          DisplayName = [], Arguments = [], WorkingDirectory = []\<rparr> []) = (StatusUnknown, Some e)
        \<and> e \<noteq> ErrNotInstalled)"
  using boxrc_Status_decoding [of "\<lambda>tr c a. Exited0 ''Running\<newline>'' []" "[]"
           "\<lparr>Name = ''svc'', DisplayName = [], Arguments = [], WorkingDirectory = []\<rparr>"
           "''Running\<newline>''" "[]"]
        boxrc_Status_decoding [of "\<lambda>tr c a. Exited0 ''Stopped\<newline>'' []" "[]"
           "\<lparr>Name = ''svc'', DisplayName = [], Arguments = [], WorkingDirectory = []\<rparr>"
           "''Stopped\<newline>''" "[]"]
        boxrc_Status_decoding [of "\<lambda>tr c a. Exited0 ''Paused'' []" "[]"
           "\<lparr>Name = ''svc'', DisplayName = [], Arguments = [], WorkingDirectory = []\<rparr>"
           "''Paused''" "[]"]
        boxrc_Status_decoding [of "\<lambda>tr c a. WaitFailed (ExitError 1) [] []" "[]"
           "\<lparr>Name = ''svc'', DisplayName = [], Arguments = [], WorkingDirectory = []\<rparr>"
           "[]" "[]"]
  by auto

text \<open>
  Claim C4. Restart runs Stop first. When Stop returns an error, Restart returns that
  error and the only command run is the stop command: Start is not invoked. When Stop
  succeeds, Restart sleeps 50 milliseconds, then runs Start and returns Start's result.
\<close>

theorem boxrc_Restart_order:
  "(fst (boxrc_Stop ex s tr) = Some err \<longrightarrow>
      boxrc_Restart ex s tr = (Some err, tr @ [Exec (configPath s) [''stop'']]))
   \<and> (fst (boxrc_Stop ex s tr) = None \<longrightarrow>
      boxrc_Restart ex s tr =
        boxrc_Start ex s (tr @ [Exec (configPath s) [''stop''], Sleep 50000000])
      \<and> snd (boxrc_Restart ex s tr) =
        tr @ [Exec (configPath s) [''stop''], Sleep 50000000, Exec (configPath s) [''start'']])"
proof -
  have stop_tr: "snd (boxrc_Stop ex s tr) = tr @ [Exec (configPath s) [''stop'']]"
    by (simp add: boxrc_Stop_def run_trace)
  show ?thesis
    using stop_tr
    by (cases "boxrc_Stop ex s tr")
       (auto simp: boxrc_Restart_def Millisecond_def boxrc_Start_def run_trace)
qed

theorem boxrc_Restart_order_witness:
  "boxrc_Restart (\<lambda>tr c a. if a = [''stop''] then WaitFailed (ExitError 1) [] [] else Exited0 [] [])
      \<lparr>Name = ''svc'', DisplayName = [], Arguments = [], WorkingDirectory = []\<rparr> []
     = (Some (ExitError 1), [Exec ''/etc/boxinit.d/65svc'' [''stop'']])
   \<and> boxrc_Restart (\<lambda>tr c a. if a = [''start''] then WaitFailed (ExitError 3) [] [] else Exited0 [] [])
      \<lparr>Name = ''svc'', DisplayName = [], Arguments = [], WorkingDirectory = []\<rparr> []
     = (Some (ExitError 3), [Exec ''/etc/boxinit.d/65svc'' [''stop''], Sleep 50000000,
          Exec ''/etc/boxinit.d/65svc'' [''start'']])"
proof -
  let ?s = "\<lparr>Name = ''svc'', DisplayName = [], Arguments = [], WorkingDirectory = []\<rparr>"
  let ?ex1 = "\<lambda>(tr :: event list) (c :: string) a.
                 if a = [''stop''] then WaitFailed (ExitError 1) [] [] else Exited0 [] []"
  let ?ex2 = "\<lambda>(tr :: event list) (c :: string) a.
                 if a = [''start''] then WaitFailed (ExitError 3) [] [] else Exited0 [] []"
  have stop1: "fst (boxrc_Stop ?ex1 ?s []) = Some (ExitError 1)"
    by (simp add: boxrc_Stop_def run_def runCommand_def)
  have stop2: "fst (boxrc_Stop ?ex2 ?s []) = None"
    by (simp add: boxrc_Stop_def run_def runCommand_def configPath_def)
  have start2: "boxrc_Start ?ex2 ?s [Exec (configPath ?s) [''stop''], Sleep 50000000]
                  = (Some (ExitError 3), [Exec ''/etc/boxinit.d/65svc'' [''stop''], Sleep 50000000,
                       Exec ''/etc/boxinit.d/65svc'' [''start'']])"
    by (simp add: boxrc_Start_def run_def runCommand_def configPath_def)
  show ?thesis
    using boxrc_Restart_order [of ?ex1 ?s "[]" "ExitError 1"] stop1
          boxrc_Restart_order [of ?ex2 ?s "[]" "ExitError 1"] stop2 start2
    by (simp add: configPath_def)
qed

text \<open>
  Claim C5. When the Start callback returns no error and the run-wait option is the
  default: Run calls Start, registers for SIGTERM and the interrupt signal on a channel
  of its own, and waits. When one of the two signals arrives, Run calls Stop and returns
  Stop's result. As long as neither arrives, Run stays blocked and Stop is not called.
\<close>

theorem boxrc_Run_default_wait:
  "i_Start i tr = None \<Longrightarrow>
     (sg (tr @ [CallStart, SignalNotify [SIGTERM, SIGINT]]) = Some sig
        \<and> (sig = SIGTERM \<or> sig = SIGINT) \<longrightarrow>
      boxrc_Run i sg None tr =
        (Finished (i_Stop i (tr @ [CallStart, SignalNotify [SIGTERM, SIGINT], SignalReceive sig])),
         tr @ [CallStart, SignalNotify [SIGTERM, SIGINT], SignalReceive sig, CallStop]))
   \<and> ((\<forall>sig'. sg (tr @ [CallStart, SignalNotify [SIGTERM, SIGINT]]) = Some sig'
               \<longrightarrow> sig' \<noteq> SIGTERM \<and> sig' \<noteq> SIGINT) \<longrightarrow>
      boxrc_Run i sg None tr = (Blocked, tr @ [CallStart, SignalNotify [SIGTERM, SIGINT]]))"
  by (auto simp: boxrc_Run_def defaultRunWait_def Let_def split: option.splits)

theorem boxrc_Run_default_wait_witness:
  "boxrc_Run \<lparr>i_Start = (\<lambda>tr. None), i_Stop = (\<lambda>tr. Some (OSError ''stop failed''))\<rparr>
      (\<lambda>tr. Some SIGTERM) None []
     = (Finished (Some (OSError ''stop failed'')),
        [CallStart, SignalNotify [SIGTERM, SIGINT], SignalReceive SIGTERM, CallStop])
   \<and> boxrc_Run \<lparr>i_Start = (\<lambda>tr. None), i_Stop = (\<lambda>tr. Some (OSError ''stop failed''))\<rparr>
      (\<lambda>tr. None) None []
     = (Blocked, [CallStart, SignalNotify [SIGTERM, SIGINT]])"
  using boxrc_Run_default_wait [of "\<lparr>i_Start = (\<lambda>tr. None),
           i_Stop = (\<lambda>tr. Some (OSError ''stop failed''))\<rparr>" "[]" "\<lambda>tr. Some SIGTERM" SIGTERM]
        boxrc_Run_default_wait [of "\<lparr>i_Start = (\<lambda>tr. None),
           i_Stop = (\<lambda>tr. Some (OSError ''stop failed''))\<rparr>" "[]" "\<lambda>tr. None" SIGTERM]
  by simp

text \<open>
  Claim C10. When the Start callback returns an error, Run returns that error at once:
  nothing is registered or awaited, and the Stop callback is not called, whatever the
  run-wait option and the signals are.
\<close>

theorem boxrc_Run_start_error:
  "i_Start i tr = Some err \<Longrightarrow> boxrc_Run i sg runWait tr = (Finished (Some err), tr @ [CallStart])"
  by (simp add: boxrc_Run_def)

theorem boxrc_Run_start_error_witness:
  "boxrc_Run \<lparr>i_Start = (\<lambda>tr. Some (OSError ''no port'')), i_Stop = (\<lambda>tr. None)\<rparr>
      (\<lambda>tr. Some SIGTERM) None [] = (Finished (Some (OSError ''no port'')), [CallStart])"
  using boxrc_Run_start_error [of "\<lparr>i_Start = (\<lambda>tr. Some (OSError ''no port'')),
           i_Stop = (\<lambda>tr. None)\<rparr>" "[]" "OSError ''no port''" "\<lambda>tr. Some SIGTERM" None]
  by simp

section \<open>Properties of the execution-context detector\<close>

declare isInContainer_loop.simps [simp del] scan_tokens.simps [simp del] digits.simps [simp del]

text \<open>The equations that evaluate the detector on a concrete file.\<close>

lemmas detect_eval = scan_tokens.simps isInContainer_loop.simps Scan_def MaxScanTokenSize_def
  dropCR_def maxlines_def Contains_def isInContainer_def Let_def sublist_Cons_right
  isInteractive_def cgroupFile_def binaryName_def itoa_def digits.simps slice_def

lemma isInContainer_loop_marker:
  "isInContainer_loop inp n = (True, None) \<longleftrightarrow>
     (\<exists>t \<in> set (take (Suc maxlines - n) (scan_tokens inp)).
         Contains t ''docker'' \<or> Contains t ''lxc'')"
proof (induction inp n rule: isInContainer_loop.induct)
  case (1 inp k)
  show ?case
  proof (cases "Scan inp")
    case (Token tok rest)
    show ?thesis
    proof (cases "k > maxlines")
      case True
      with Token show ?thesis
        by (simp add: isInContainer_loop.simps [of inp] scan_tokens.simps [of inp])
    next
      case False
      then have le: "Suc maxlines - k = Suc (maxlines - k)" by simp
      show ?thesis
      proof (cases "Contains tok ''docker'' \<or> Contains tok ''lxc''")
        case True
        with Token False le show ?thesis
          by (simp add: isInContainer_loop.simps [of inp] scan_tokens.simps [of inp])
      next
        case nomark: False
        from "1.IH" [OF Token False nomark]
        show ?thesis using Token False nomark le
          by (simp add: isInContainer_loop.simps [of inp] scan_tokens.simps [of inp])
      qed
    qed
  next
    case ScanEnd
    then show ?thesis
      by (simp add: isInContainer_loop.simps [of inp] scan_tokens.simps [of inp])
  next
    case (ScanErr err)
    then show ?thesis
      by (simp add: isInContainer_loop.simps [of inp] scan_tokens.simps [of inp])
  qed
qed

lemma isInContainer_loop_no_error:
  "fst (isInContainer_loop inp n) \<Longrightarrow> snd (isInContainer_loop inp n) = None"
proof (induction inp n rule: isInContainer_loop.induct)
  case (1 inp k)
  then show ?case
    by (cases "Scan inp")
       (auto simp: isInContainer_loop.simps [of inp] split: if_splits)
qed

lemma isInContainer_detects:
  "(snd (isInContainer rf p) = None \<and> fst (isInContainer rf p)) \<longleftrightarrow>
     (\<exists>content. rf p = Inr content \<and>
        (\<exists>t \<in> set (take 6 (scan_tokens content)).
            Contains t ''docker'' \<or> Contains t ''lxc''))"
proof (cases "rf p")
  case (Inl err)
  then show ?thesis by (simp add: isInContainer_def)
next
  case (Inr content)
  have "(snd (isInContainer_loop content 0) = None \<and> fst (isInContainer_loop content 0))
          \<longleftrightarrow> isInContainer_loop content 0 = (True, None)"
    by (cases "isInContainer_loop content 0") auto
  with Inr show ?thesis
    using isInContainer_loop_marker [of content 0]
    by (simp add: isInContainer_def maxlines_def)
qed

lemma IndexRune_first:
  "c \<notin> set pre \<Longrightarrow> IndexRune (pre @ c # rest) c = int (length pre)"
  by (induction pre) (auto simp: Let_def)

lemma IndexRune_range: "-1 \<le> IndexRune s c \<and> IndexRune s c < int (length s)"
  by (induction s) (auto simp: Let_def)

lemma IndexRune_absent: "IndexRune s c = -1 \<longleftrightarrow> c \<notin> set s"
proof (induction s)
  case Nil
  show ?case by simp
next
  case (Cons a s)
  have "-1 \<le> IndexRune s c" using IndexRune_range [of s c] by simp
  with Cons show ?case by (auto simp: Let_def)
qed

lemma binaryName_parenthesized:
  assumes "rf (''/proc/'' @ itoa pid @ ''/stat'') = Inr (pre @ ''('' @ name @ '')'' @ post)"
    and "CHR ''('' \<notin> set pre" and "CHR '')'' \<notin> set name"
  shows "binaryName rf pid = Returned (name, None)"
proof -
  let ?data = "pre @ ''('' @ name @ '')'' @ post"
  have start: "IndexRune ?data (CHR ''('') = int (length pre)"
    using IndexRune_first [OF assms(2), of "name @ '')'' @ post"] by simp
  have tail: "slice ?data (int (length pre) + 1) (int (length ?data))
                = Returned (name @ '')'' @ post)"
    by (simp add: slice_def nat_add_distrib)
  have fin: "IndexRune (name @ '')'' @ post) (CHR '')'') = int (length name)"
    using IndexRune_first [OF assms(3), of post] by simp
  have nm: "slice ?data (int (length pre) + 1) (int (length pre) + 1 + int (length name))
              = Returned name"
    by (simp add: slice_def nat_add_distrib)
  show ?thesis
    using assms(1) start tail fin nm
    by (simp add: binaryName_def Let_def)
qed

lemma binaryName_panics:
  assumes "rf (''/proc/'' @ itoa pid @ ''/stat'') = Inr data"
  shows "(\<exists>msg. binaryName rf pid = Panic msg) \<longleftrightarrow>
           CHR '')'' \<notin> set (drop (nat (IndexRune data (CHR ''('') + 1)) data)"
proof -
  let ?b = "IndexRune data (CHR ''('') + 1"
  have b: "0 \<le> ?b" "?b \<le> int (length data)"
    using IndexRune_range [of data "CHR ''(''"] by auto
  then have tail: "slice data ?b (int (length data)) = Returned (drop (nat ?b) data)"
    by (simp add: slice_def)
  let ?e = "IndexRune (drop (nat ?b) data) (CHR '')'')"
  have e: "-1 \<le> ?e" "?e < int (length (drop (nat ?b) data))"
    using IndexRune_range [of "drop (nat ?b) data" "CHR '')''"] by auto
  have "(\<exists>msg. slice data ?b (?b + ?e) = Panic msg) \<longleftrightarrow> ?e = -1"
    using b e by (auto simp: slice_def)
  then show ?thesis
    using assms tail IndexRune_absent [of "drop (nat ?b) data" "CHR '')''"]
    by (auto simp: binaryName_def Let_def split: outcome.splits)
qed

text \<open>
  Claim C2. The three rules in their order. When one of the lines that isInContainer
  scans in the cgroup file contains \<open>docker\<close> or \<open>lxc\<close>, IsInteractive returns true, whatever
  the parent is. Otherwise, when the parent process id is 1, it returns false, whatever
  the parent's stat record holds. Otherwise, for a stat record that holds a name between
  its first opening parenthesis and the next closing one, it returns true exactly when
  that name is not \<open>systemd\<close>.
\<close>

theorem isInteractive_decision_order:
  "((\<exists>content. readFile w cgroupFile = Inr content \<and>
        (\<exists>t \<in> set (take 6 (scan_tokens content)).
            Contains t ''docker'' \<or> Contains t ''lxc''))
      \<longrightarrow> isInteractive w = Returned True)
   \<and> (\<not> (\<exists>content. readFile w cgroupFile = Inr content \<and>
        (\<exists>t \<in> set (take 6 (scan_tokens content)).
            Contains t ''docker'' \<or> Contains t ''lxc''))
        \<and> Getppid w = 1
      \<longrightarrow> isInteractive w = Returned False)
   \<and> (\<not> (\<exists>content. readFile w cgroupFile = Inr content \<and>
        (\<exists>t \<in> set (take 6 (scan_tokens content)).
            Contains t ''docker'' \<or> Contains t ''lxc''))
        \<and> Getppid w \<noteq> 1
        \<and> readFile w (''/proc/'' @ itoa (Getppid w) @ ''/stat'')
            = Inr (pre @ ''('' @ name @ '')'' @ post)
        \<and> CHR ''('' \<notin> set pre \<and> CHR '')'' \<notin> set name
      \<longrightarrow> isInteractive w = Returned (name \<noteq> ''systemd''))"
proof -
  let ?found = "\<exists>content. readFile w cgroupFile = Inr content \<and>
        (\<exists>t \<in> set (take 6 (scan_tokens content)).
            Contains t ''docker'' \<or> Contains t ''lxc'')"
  obtain b e where res: "isInContainer (readFile w) cgroupFile = (b, e)"
    by (cases "isInContainer (readFile w) cgroupFile") auto
  have found: "(e = None \<and> b) \<longleftrightarrow> ?found"
    using isInContainer_detects [of "readFile w" cgroupFile] res by simp
  have rule1: "?found \<longrightarrow> isInteractive w = Returned True"
    using found res by (simp add: isInteractive_def)
  have rule2: "\<not> ?found \<and> Getppid w = 1 \<longrightarrow> isInteractive w = Returned False"
    using found res by (auto simp: isInteractive_def)
  have rule3: "\<not> ?found \<and> Getppid w \<noteq> 1
        \<and> readFile w (''/proc/'' @ itoa (Getppid w) @ ''/stat'')
            = Inr (pre @ ''('' @ name @ '')'' @ post)
        \<and> CHR ''('' \<notin> set pre \<and> CHR '')'' \<notin> set name
      \<longrightarrow> isInteractive w = Returned (name \<noteq> ''systemd'')"
  proof (intro impI, elim conjE)
    assume nf: "\<not> ?found" and pp: "Getppid w \<noteq> 1"
      and st: "readFile w (''/proc/'' @ itoa (Getppid w) @ ''/stat'')
                 = Inr (pre @ ''('' @ name @ '')'' @ post)"
      and p1: "CHR ''('' \<notin> set pre" and p2: "CHR '')'' \<notin> set name"
    have bn: "binaryName (readFile w) (Getppid w) = Returned (name, None)"
      using binaryName_parenthesized [of "readFile w" "Getppid w" pre name post] st p1 p2
      by simp
    from nf found have "\<not> (e = None \<and> b)" by simp
    then show "isInteractive w = Returned (name \<noteq> ''systemd'')"
      using res pp bn by (auto simp: isInteractive_def Let_def)
  qed
  from rule1 rule2 rule3 show ?thesis by blast
qed

theorem isInteractive_decision_order_witness:
  "isInteractive \<lparr>readFile = (\<lambda>p. if p = ''/proc/1/cgroup'' then Inr ''12:cpu:/docker/3a5f\<newline>''
        else Inl (OSError ''no such file or directory'')), Getppid = 1\<rparr> = Returned True
   \<and> isInteractive \<lparr>readFile = (\<lambda>p. if p = ''/proc/1/cgroup'' then Inr ''0::/init.scope\<newline>''
        else Inl (OSError ''no such file or directory'')), Getppid = 1\<rparr> = Returned False
   \<and> isInteractive \<lparr>readFile = (\<lambda>p. if p = ''/proc/1/cgroup'' then Inr ''0::/init.scope\<newline>''
        else if p = ''/proc/4242/stat'' then Inr ''4242 (bash) S 4200 4242''
        else Inl (OSError ''no such file or directory'')), Getppid = 4242\<rparr> = Returned True
   \<and> isInteractive \<lparr>readFile = (\<lambda>p. if p = ''/proc/1/cgroup'' then Inr ''0::/init.scope\<newline>''
        else if p = ''/proc/4242/stat'' then Inr ''4242 (systemd) S 1 4242''
        else Inl (OSError ''no such file or directory'')), Getppid = 4242\<rparr> = Returned False"
proof -
  let ?nofile = "Inl (OSError ''no such file or directory'') :: error + string"
  let ?w1 = "\<lparr>readFile = (\<lambda>p. if p = ''/proc/1/cgroup'' then Inr ''12:cpu:/docker/3a5f\<newline>''
        else ?nofile), Getppid = 1\<rparr>"
  let ?w2 = "\<lparr>readFile = (\<lambda>p. if p = ''/proc/1/cgroup'' then Inr ''0::/init.scope\<newline>''
        else ?nofile), Getppid = 1\<rparr>"
  let ?w3 = "\<lparr>readFile = (\<lambda>p. if p = ''/proc/1/cgroup'' then Inr ''0::/init.scope\<newline>''
        else if p = ''/proc/4242/stat'' then Inr ''4242 (bash) S 4200 4242''
        else ?nofile), Getppid = 4242\<rparr>"
  let ?w4 = "\<lparr>readFile = (\<lambda>p. if p = ''/proc/1/cgroup'' then Inr ''0::/init.scope\<newline>''
        else if p = ''/proc/4242/stat'' then Inr ''4242 (systemd) S 1 4242''
        else ?nofile), Getppid = 4242\<rparr>"
  have t1: "scan_tokens ''12:cpu:/docker/3a5f\<newline>'' = [''12:cpu:/docker/3a5f'']"
    by (simp add: detect_eval)
  have t2: "scan_tokens ''0::/init.scope\<newline>'' = [''0::/init.scope'']"
    by (simp add: detect_eval)
  have m1: "Contains ''12:cpu:/docker/3a5f'' ''docker''"
    by (simp add: detect_eval)
  have m2: "\<not> Contains ''0::/init.scope'' ''docker''" "\<not> Contains ''0::/init.scope'' ''lxc''"
    by (simp_all add: detect_eval)
  have pid: "itoa 4242 = ''4242''"
    by (simp add: detect_eval)
  have c1: "isInteractive ?w1 = Returned True"
    using isInteractive_decision_order [of ?w1] t1 m1 by (simp add: cgroupFile_def)
  have c2: "isInteractive ?w2 = Returned False"
    using isInteractive_decision_order [of ?w2] t2 m2 by (simp add: cgroupFile_def)
  have c3: "isInteractive ?w3 = Returned True"
    using isInteractive_decision_order [of ?w3 "''4242 ''" "''bash''" "'' S 4200 4242''"] t2 m2 pid
    by (simp add: cgroupFile_def)
  have c4: "isInteractive ?w4 = Returned False"
    using isInteractive_decision_order [of ?w4 "''4242 ''" "''systemd''" "'' S 1 4242''"] t2 m2 pid
    by (simp add: cgroupFile_def)
  from c1 c2 c3 c4 show ?thesis by simp
qed

text \<open>
  Claim C6, evaluated on the code. In this cgroup file the first five lines hold neither
  \<open>docker\<close> nor \<open>lxc\<close> and the sixth line holds \<open>docker\<close>: isInContainer scans the sixth line
  and reports a container.
\<close>

theorem isInContainer_sixth_line:
  "take 5 (scan_tokens
      ''11:memory:/\<newline>10:cpu:/\<newline>9:pids:/\<newline>8:devices:/\<newline>7:blkio:/\<newline>6:freezer:/docker/3a5f\<newline>'')
     = [''11:memory:/'', ''10:cpu:/'', ''9:pids:/'', ''8:devices:/'', ''7:blkio:/'']
   \<and> isInContainer (\<lambda>p. if p = ''/proc/1/cgroup''
        then Inr ''11:memory:/\<newline>10:cpu:/\<newline>9:pids:/\<newline>8:devices:/\<newline>7:blkio:/\<newline>6:freezer:/docker/3a5f\<newline>''
        else Inl (OSError ''no such file or directory'')) ''/proc/1/cgroup'' = (True, None)
   \<and> isInContainer (\<lambda>p. if p = ''/proc/1/cgroup''
        then Inr ''11:memory:/\<newline>10:cpu:/\<newline>9:pids:/\<newline>8:devices:/\<newline>7:blkio:/\<newline>6:freezer:/\<newline>5:net_cls:/docker/3a5f\<newline>''
        else Inl (OSError ''no such file or directory'')) ''/proc/1/cgroup'' = (False, None)"
  by (simp add: detect_eval)

text \<open>
  Claim C7, evaluated on the code. With a cgroup file that names no container, a parent
  other than process 1 and a parent stat file that is empty, or that holds no closing
  parenthesis after its first opening one, IsInteractive panics; with a stat file that
  cannot be read it returns true.
\<close>

theorem isInteractive_panics:
  "isInteractive \<lparr>readFile = (\<lambda>p. if p = ''/proc/1/cgroup'' then Inr ''0::/init.scope\<newline>''
        else if p = ''/proc/4242/stat'' then Inr []
        else Inl (OSError ''no such file or directory'')), Getppid = 4242\<rparr>
     = Panic ''slice bounds out of range''
   \<and> isInteractive \<lparr>readFile = (\<lambda>p. if p = ''/proc/1/cgroup'' then Inr ''0::/init.scope\<newline>''
        else if p = ''/proc/4242/stat'' then Inr ''4242 (bash''
        else Inl (OSError ''no such file or directory'')), Getppid = 4242\<rparr>
     = Panic ''slice bounds out of range''
   \<and> isInteractive \<lparr>readFile = (\<lambda>p. if p = ''/proc/1/cgroup'' then Inr ''0::/init.scope\<newline>''
        else Inl (OSError ''no such file or directory'')), Getppid = 4242\<rparr>
     = Returned True"
  by (simp add: detect_eval)

section \<open>Properties of Install\<close>

lemma template_Execute_keeps:
  assumes wr: "\<forall>w p t. os_Stat sys w p = None \<longrightarrow> os_Stat sys (snd (os_Write sys w p t)) p = None"
    and ex: "os_Stat sys w p = None"
  shows "os_Stat sys (snd (template_Execute sys s opts p path w)) p = None"
proof (cases "customScript opts \<noteq> []")
  case True
  show ?thesis
  proof (cases "tmpl_custom sys (customScript opts) s path (logDirectory opts)")
    case (TmplParsePanic msg)
    with True ex show ?thesis by (simp add: template_Execute_def)
  next
    case (TmplOutput body terr)
    from wr ex have "os_Stat sys (snd (os_Write sys w p body)) p = None" by blast
    with True TmplOutput show ?thesis
      by (cases "os_Write sys w p body")
         (auto simp: template_Execute_def split: option.splits)
  qed
next
  case False
  from wr ex
  have "os_Stat sys (snd (os_Write sys w p (boxrcScript_render s path (logDirectory opts)))) p = None"
    by blast
  with False show ?thesis
    by (cases "os_Write sys w p (boxrcScript_render s path (logDirectory opts))")
       (auto simp: template_Execute_def)
qed

lemma Install_body_keeps:
  assumes wr: "\<forall>w p t. os_Stat sys w p = None \<longrightarrow> os_Stat sys (snd (os_Write sys w p t)) p = None"
    and ch: "\<forall>w p m. os_Stat sys w p = None \<longrightarrow> os_Stat sys (snd (os_Chmod sys w p m)) p = None"
    and sy: "\<forall>w p q. os_Stat sys w p = None \<and> p \<noteq> q
                \<longrightarrow> os_Stat sys (snd (os_Symlink sys w p q)) p = None"
    and ne: "p \<noteq> ''/etc/boxrc.d/65'' @ Name s"
    and ex: "os_Stat sys w p = None"
  shows "os_Stat sys (snd (Install_body sys s opts p w)) p = None"
proof (cases "execPath opts")
  case (Inl err)
  with ex show ?thesis by (simp add: Install_body_def)
next
  case (Inr path)
  obtain r w1 where te: "template_Execute sys s opts p path w = (r, w1)"
    by (cases "template_Execute sys s opts p path w") auto
  have k1: "os_Stat sys w1 p = None"
    using template_Execute_keeps [OF wr ex, of s opts path] te by simp
  obtain e2 w2 where cm: "os_Chmod sys w1 p 493 = (e2, w2)"
    by (cases "os_Chmod sys w1 p 493") auto
  have k2: "os_Stat sys w2 p = None"
    using ch k1 cm by (metis snd_conv)
  obtain e3 w3 where sl: "os_Symlink sys w2 p (''/etc/boxrc.d/65'' @ Name s) = (e3, w3)"
    by (cases "os_Symlink sys w2 p (''/etc/boxrc.d/65'' @ Name s)") auto
  have k3: "os_Stat sys w3 p = None"
    using sy k2 sl ne by (metis snd_conv)
  show ?thesis
    using Inr te cm sl k1 k2 k3
    by (auto simp: Install_body_def split: outcome.splits option.splits)
qed

lemma configPath_not_link: "configPath s \<noteq> ''/etc/boxrc.d/65'' @ Name s"
  by (simp add: configPath_def)

text \<open>
  Claim C3. When \<open>os.Stat\<close> finds the descriptor at the config path, Install returns the
  error \<open>Init already exists\<close> for that path and leaves the file system as it was: no
  operation was applied to it. Hence, on an operating system where a created file
  exists and where writing, closing, chmod and a symlink under another name keep it in
  existence, a second Install after a successful one fails with that error and changes
  nothing.
\<close>

theorem boxrc_Install_already_installed:
  "(os_Stat sys w (configPath s) = None \<longrightarrow>
      boxrc_Install sys s opts w = (Returned (Some (InitAlreadyExists (configPath s))), w))
   \<and> ((\<forall>w p w'. os_Create sys w p = (None, w') \<longrightarrow> os_Stat sys w' p = None)
       \<and> (\<forall>w p t. os_Stat sys w p = None \<longrightarrow> os_Stat sys (snd (os_Write sys w p t)) p = None)
       \<and> (\<forall>w p m. os_Stat sys w p = None \<longrightarrow> os_Stat sys (snd (os_Chmod sys w p m)) p = None)
       \<and> (\<forall>w p q. os_Stat sys w p = None \<and> p \<noteq> q
              \<longrightarrow> os_Stat sys (snd (os_Symlink sys w p q)) p = None)
       \<and> (\<forall>w p. os_Stat sys w p = None \<longrightarrow> os_Stat sys (os_Close sys w p) p = None)
       \<and> boxrc_Install sys s opts w = (Returned None, w1)
      \<longrightarrow> boxrc_Install sys s opts2 w1
            = (Returned (Some (InitAlreadyExists (configPath s))), w1))"
proof -
  have first: "os_Stat sys v (configPath s) = None \<Longrightarrow>
      boxrc_Install sys s o' v = (Returned (Some (InitAlreadyExists (configPath s))), v)"
    for v o'
    by (simp add: boxrc_Install_def)
  have second: "boxrc_Install sys s opts2 w1
            = (Returned (Some (InitAlreadyExists (configPath s))), w1)"
    if cr: "\<forall>w p w'. os_Create sys w p = (None, w') \<longrightarrow> os_Stat sys w' p = None"
      and wr: "\<forall>w p t. os_Stat sys w p = None \<longrightarrow> os_Stat sys (snd (os_Write sys w p t)) p = None"
      and ch: "\<forall>w p m. os_Stat sys w p = None \<longrightarrow> os_Stat sys (snd (os_Chmod sys w p m)) p = None"
      and sy: "\<forall>w p q. os_Stat sys w p = None \<and> p \<noteq> q
                  \<longrightarrow> os_Stat sys (snd (os_Symlink sys w p q)) p = None"
      and cl: "\<forall>w p. os_Stat sys w p = None \<longrightarrow> os_Stat sys (os_Close sys w p) p = None"
      and ok: "boxrc_Install sys s opts w = (Returned None, w1)"
  proof -
    let ?p = "configPath s"
    from ok obtain wa where create: "os_Create sys w ?p = (None, wa)"
      and fin: "w1 = os_Close sys (snd (Install_body sys s opts ?p wa)) ?p"
      by (auto simp: boxrc_Install_def Let_def split: option.splits prod.splits)
    from cr create have "os_Stat sys wa ?p = None" by blast
    then have "os_Stat sys (snd (Install_body sys s opts ?p wa)) ?p = None"
      by (rule Install_body_keeps [OF wr ch sy configPath_not_link])
    with cl have "os_Stat sys (os_Close sys (snd (Install_body sys s opts ?p wa)) ?p) ?p = None"
      by blast
    with fin have "os_Stat sys w1 ?p = None" by simp
    then show ?thesis by (rule first)
  qed
  from first second show ?thesis by blast
qed

lemma tiny_Create_exists: "tiny_Create w p = (None, w') \<Longrightarrow> tiny_Stat w' p = None"
  by (auto simp: tiny_Create_def tiny_Stat_def split: option.splits)

lemma tiny_Write_keeps: "tiny_Stat w p = None \<Longrightarrow> tiny_Stat (snd (tiny_Write w p t)) p = None"
  by (auto simp: tiny_Write_def tiny_Stat_def split: option.splits)

lemma tiny_Chmod_keeps: "tiny_Stat w p = None \<Longrightarrow> tiny_Stat (snd (tiny_Chmod w p m)) p = None"
  by (auto simp: tiny_Chmod_def tiny_Stat_def split: option.splits)

lemma tiny_Symlink_keeps:
  "tiny_Stat w p = None \<Longrightarrow> p \<noteq> q \<Longrightarrow> tiny_Stat (snd (tiny_Symlink w p q)) p = None"
  by (auto simp: tiny_Symlink_def tiny_Stat_def split: option.splits)

theorem boxrc_Install_already_installed_witness:
  "boxrc_Install tiny_sys \<lparr>Name = ''svc'', DisplayName = [], Arguments = [], WorkingDirectory = []\<rparr>
      \<lparr>customScript = [], logDirectory = ''/var/log'', execPath = Inr ''/usr/bin/svc''\<rparr>
      \<lparr>files = [''/etc/boxinit.d/65svc'' \<mapsto> (''old'', 493)], links = Map.empty\<rparr>
     = (Returned (Some (InitAlreadyExists ''/etc/boxinit.d/65svc'')),
        \<lparr>files = [''/etc/boxinit.d/65svc'' \<mapsto> (''old'', 493)], links = Map.empty\<rparr>)
   \<and> fst (boxrc_Install tiny_sys
             \<lparr>Name = ''svc'', DisplayName = [], Arguments = [], WorkingDirectory = []\<rparr>
             \<lparr>customScript = [], logDirectory = ''/var/log'', execPath = Inr ''/usr/bin/svc''\<rparr>
             \<lparr>files = Map.empty, links = Map.empty\<rparr>) = Returned None
   \<and> boxrc_Install tiny_sys \<lparr>Name = ''svc'', DisplayName = [], Arguments = [], WorkingDirectory = []\<rparr>
        \<lparr>customScript = [], logDirectory = ''/var/log'', execPath = Inr ''/usr/bin/svc''\<rparr>
        (snd (boxrc_Install tiny_sys
               \<lparr>Name = ''svc'', DisplayName = [], Arguments = [], WorkingDirectory = []\<rparr>
               \<lparr>customScript = [], logDirectory = ''/var/log'', execPath = Inr ''/usr/bin/svc''\<rparr>
               \<lparr>files = Map.empty, links = Map.empty\<rparr>))
     = (Returned (Some (InitAlreadyExists ''/etc/boxinit.d/65svc'')),
        snd (boxrc_Install tiny_sys
               \<lparr>Name = ''svc'', DisplayName = [], Arguments = [], WorkingDirectory = []\<rparr>
               \<lparr>customScript = [], logDirectory = ''/var/log'', execPath = Inr ''/usr/bin/svc''\<rparr>
               \<lparr>files = Map.empty, links = Map.empty\<rparr>))"
proof -
  let ?s = "\<lparr>Name = ''svc'', DisplayName = [], Arguments = [], WorkingDirectory = []\<rparr>"
  let ?o = "\<lparr>customScript = [], logDirectory = ''/var/log'', execPath = Inr ''/usr/bin/svc''\<rparr>"
  let ?w0 = "\<lparr>files = Map.empty, links = Map.empty\<rparr>"
  let ?wi = "\<lparr>files = [''/etc/boxinit.d/65svc'' \<mapsto> (''old'', 493)], links = Map.empty\<rparr>"
  have cp: "configPath ?s = ''/etc/boxinit.d/65svc''"
    by (simp add: configPath_def)
  have st: "os_Stat tiny_sys ?wi (configPath ?s) = None"
    by (simp add: tiny_sys_def tiny_Stat_def cp)
  have ok: "fst (boxrc_Install tiny_sys ?s ?o ?w0) = Returned None"
    by (simp add: boxrc_Install_def Install_body_def template_Execute_def tiny_sys_def cp
          tiny_Stat_def tiny_Create_def tiny_Write_def tiny_Chmod_def tiny_Symlink_def enoent_def
          Let_def)
  then have ok': "boxrc_Install tiny_sys ?s ?o ?w0
                    = (Returned None, snd (boxrc_Install tiny_sys ?s ?o ?w0))"
    by (cases "boxrc_Install tiny_sys ?s ?o ?w0") simp
  have h1: "\<forall>w p w'. os_Create tiny_sys w p = (None, w') \<longrightarrow> os_Stat tiny_sys w' p = None"
    by (simp add: tiny_sys_def tiny_Create_exists)
  have h2: "\<forall>w p t. os_Stat tiny_sys w p = None
              \<longrightarrow> os_Stat tiny_sys (snd (os_Write tiny_sys w p t)) p = None"
    by (simp add: tiny_sys_def tiny_Write_keeps)
  have h3: "\<forall>w p m. os_Stat tiny_sys w p = None
              \<longrightarrow> os_Stat tiny_sys (snd (os_Chmod tiny_sys w p m)) p = None"
    by (simp add: tiny_sys_def tiny_Chmod_keeps)
  have h4: "\<forall>w p q. os_Stat tiny_sys w p = None \<and> p \<noteq> q
              \<longrightarrow> os_Stat tiny_sys (snd (os_Symlink tiny_sys w p q)) p = None"
    by (simp add: tiny_sys_def tiny_Symlink_keeps)
  have h5: "\<forall>w p. os_Stat tiny_sys w p = None
              \<longrightarrow> os_Stat tiny_sys (os_Close tiny_sys w p) p = None"
    by (simp add: tiny_sys_def)
  show ?thesis
    using boxrc_Install_already_installed [of tiny_sys ?wi ?s ?o]
          boxrc_Install_already_installed
            [of tiny_sys ?w0 ?s ?o "snd (boxrc_Install tiny_sys ?s ?o ?w0)" ?o]
          st ok ok' h1 h2 h3 h4 h5 cp
    by simp
qed

section \<open>Properties of the rendered command line\<close>

lemma sh_fields_no_blank:
  "CHR '' '' \<notin> set cur \<Longrightarrow> f \<in> set (sh_fields cur v) \<Longrightarrow> CHR '' '' \<notin> set f"
proof (induction v arbitrary: cur)
  case Nil
  then show ?case by (auto split: if_splits)
next
  case (Cons c cs)
  show ?case
  proof (cases "c = CHR '' '' \<or> c = CHR 0x09 \<or> c = CHR 0x0A")
    case True
    with Cons.prems have "f = cur \<or> f \<in> set (sh_fields [] cs)"
      by (auto split: if_splits)
    then show ?thesis
      using Cons.prems(1) Cons.IH [of "[]"] by auto
  next
    case False
    with Cons.prems have "f \<in> set (sh_fields (cur @ [c]) cs)" by simp
    moreover from False Cons.prems(1) have "CHR '' '' \<notin> set (cur @ [c])" by auto
    ultimately show ?thesis by (rule Cons.IH [rotated])
  qed
qed

text \<open>
  Whatever the path and the arguments are, no word that the started program receives
  holds a blank: an argument with a blank in it never arrives in one piece.
\<close>

lemma boxrc_started_argv_no_blank:
  "boxrc_started_argv path args = Some argv \<Longrightarrow> f \<in> set argv \<Longrightarrow> CHR '' '' \<notin> set f"
  using sh_fields_no_blank [of "[]" f] by (auto simp: boxrc_started_argv_def)

text \<open>
  Claim C9, evaluated on the code. For the arguments \<open>--flag\<close> and \<open>value with spaces\<close> the
  rendered line closes the double quote of the assignment before each argument and
  opens it again after. The shell reads three words: an assignment that ends at the
  first blank of the second argument, then \<open>with\<close>, then \<open>spaces\<close>. It runs \<open>with\<close> as a
  command, \<open>cmd\<close> stays unset, and line 229 starts nothing: the two arguments are not
  what the shell yields.
\<close>

theorem boxrc_started_argv_value_with_spaces:
  \<open>boxrcScript_cmd_line ''/usr/bin/svc'' [''--flag'', ''value with spaces'']
     = ''cmd="/usr/bin/svc "--flag" "value with spaces""''
   \<and> sh_words False False [] (boxrcScript_cmd_line ''/usr/bin/svc'' [''--flag'', ''value with spaces''])
     = Some [''cmd=/usr/bin/svc --flag value'', ''with'', ''spaces'']
   \<and> boxrc_started_argv ''/usr/bin/svc'' [''--flag'', ''value with spaces''] = Some []
   \<and> boxrc_started_argv ''/usr/bin/svc'' [''--flag'', ''value'']
     = Some [''/usr/bin/svc'', ''--flag'', ''value'']\<close>
  by (simp add: boxrcScript_cmd_line_def tf_cmd_def sh_special_def boxrc_started_argv_def
        sh_cmd_after_def)


end
